theory Spec2Isabelle
  imports Main "HOL-Library.Word"
begin

section \<open>Python values\<close>

text \<open>
  The script handles values decoded from JSON (the search response, the rating tool's
  output) and the dictionaries it builds from them. A value is \<open>None\<close>, a boolean, an
  unbounded integer, a float (its 64 IEEE bits), a string, a list, or a dict. A dict is
  the association list of its items in insertion order; a key is looked up with
  \<open>map_of\<close>.
\<close>

datatype pyval =
    PNone
  | PBool bool
  | PInt int
  | PFloat "64 word"
  | PStr string
  | PList "pyval list"
  | PDict "(string \<times> pyval) list"

type_synonym dict = "(string \<times> pyval) list"

text \<open>
  The exceptions the script can meet. All of them derive from \<open>Exception\<close> except
  \<open>SystemExit\<close>, which \<open>sys.exit\<close> raises and \<open>except Exception\<close> does not catch.
\<close>

datatype exn =
    KeyError string
  | TypeError
  | AttributeError
  | ValueError
  | FileNotFoundError
  | CalledProcessError
  | TimeoutExpired
  | JSONDecodeError
  | ArticleException
  | RequestException
  | PermissionError
  | UnicodeEncodeError
  | SystemExit int

fun is_Exception :: "exn \<Rightarrow> bool" where
  "is_Exception (SystemExit _) = False"
| "is_Exception _ = True"

text \<open>
  Truth value testing, as \<open>if x:\<close>, \<open>x or y\<close> and \<open>all(...)\<close> apply it: \<open>None\<close>,
  \<open>False\<close>, zero, and every empty string, list and dict are false. A float is zero
  when all its bits but the sign are.
\<close>

fun truthy :: "pyval \<Rightarrow> bool" where
  "truthy PNone = False"
| "truthy (PBool b) = b"
| "truthy (PInt i) = (i \<noteq> 0)"
| "truthy (PFloat w) = (push_bit 1 w \<noteq> 0)"
| "truthy (PStr s) = (s \<noteq> [])"
| "truthy (PList xs) = (xs \<noteq> [])"
| "truthy (PDict d) = (d \<noteq> [])"

text \<open>\<open>d.get(k)\<close>: the value under \<open>k\<close>, \<open>None\<close> when the key is absent.\<close>

definition dict_get :: "dict \<Rightarrow> string \<Rightarrow> pyval" where
  "dict_get d k = (case map_of d k of None \<Rightarrow> PNone | Some v \<Rightarrow> v)"

text \<open>\<open>d[k]\<close>: the value under \<open>k\<close>, \<open>KeyError\<close> when the key is absent.\<close>

definition getitem :: "dict \<Rightarrow> string \<Rightarrow> exn + pyval" where
  "getitem d k = (case map_of d k of None \<Rightarrow> Inl (KeyError k) | Some v \<Rightarrow> Inr v)"

text \<open>
  A list display \<open>[d[k1], d[k2], ...]\<close>: the subscripts are evaluated left to right and
  the first missing key raises.
\<close>

fun getitems :: "dict \<Rightarrow> string list \<Rightarrow> exn + pyval list" where
  "getitems d [] = Inr []"
| "getitems d (k # ks) =
     (case getitem d k of
        Inl e \<Rightarrow> Inl e
      | Inr v \<Rightarrow> (case getitems d ks of Inl e \<Rightarrow> Inl e | Inr vs \<Rightarrow> Inr (v # vs)))"

text \<open>
  \<open>x.get(k, default)\<close> on a decoded value: only a dict has the method, any other value
  raises \<open>AttributeError\<close>.
\<close>

definition get_default :: "pyval \<Rightarrow> string \<Rightarrow> pyval \<Rightarrow> exn + pyval" where
  "get_default x k dflt =
     (case x of
        PDict d \<Rightarrow> Inr (case map_of d k of None \<Rightarrow> dflt | Some v \<Rightarrow> v)
      | _ \<Rightarrow> Inl AttributeError)"

text \<open>
  Iteration, as \<open>for\<close> and \<open>str.join\<close> perform it: a list yields its elements, a string
  its characters, a dict its keys; nothing else is iterable.
\<close>

fun py_iter :: "pyval \<Rightarrow> exn + pyval list" where
  "py_iter (PList xs) = Inr xs"
| "py_iter (PStr s) = Inr (map (\<lambda>c. PStr [c]) s)"
| "py_iter (PDict d) = Inr (map (\<lambda>kv. PStr (fst kv)) d)"
| "py_iter _ = Inl TypeError"

fun str_items :: "pyval list \<Rightarrow> exn + string list" where
  "str_items [] = Inr []"
| "str_items (PStr s # xs) =
     (case str_items xs of Inl e \<Rightarrow> Inl e | Inr ss \<Rightarrow> Inr (s # ss))"
| "str_items (_ # xs) = Inl TypeError"

fun join_strs :: "string \<Rightarrow> string list \<Rightarrow> string" where
  "join_strs sep [] = []"
| "join_strs sep [s] = s"
| "join_strs sep (s # ss) = s @ sep @ join_strs sep ss"

text \<open>\<open>sep.join(x)\<close>: \<open>TypeError\<close> unless \<open>x\<close> is an iterable of strings.\<close>

definition py_join :: "string \<Rightarrow> pyval \<Rightarrow> exn + string" where
  "py_join sep x =
     (case py_iter x of
        Inl e \<Rightarrow> Inl e
      | Inr xs \<Rightarrow> (case str_items xs of Inl e \<Rightarrow> Inl e | Inr ss \<Rightarrow> Inr (join_strs sep ss)))"

text \<open>
  \<open>str(x)\<close>: a string is itself; the rendering of every other value is the built-in's,
  taken as the parameter \<open>strf\<close>.
\<close>

definition py_str :: "(pyval \<Rightarrow> string) \<Rightarrow> pyval \<Rightarrow> string" where
  "py_str strf x = (case x of PStr s \<Rightarrow> s | _ \<Rightarrow> strf x)"

section \<open>Articles and the files they are written to\<close>

text \<open>
  An Article is a dict with the keys \<open>date\<close>, \<open>keyword\<close>, \<open>headline\<close>, \<open>description\<close>
  and \<open>url\<close>; an element of an article list may also be \<open>None\<close>, which the guards
  \<open>if article and ...\<close> allow for. A row is the list of cell values handed to
  \<open>writer.writerow\<close>.

  A file is the text it holds, and the file system maps a path to its text, or to
  nothing when the path does not exist. Two things come from outside the script and
  are parameters: \<open>open_error\<close>, the exception that opening a path for writing or
  appending raises, if any (a missing directory, a read-only file), and \<open>render\<close>, what
  the csv writer does with a row: the text it writes for it, line terminator included,
  or the exception it raises (a cell the file's encoding cannot represent).
\<close>

type_synonym article = "dict option"
type_synonym row = "pyval list"
type_synonym files = "string \<Rightarrow> string option"
type_synonym opener = "string \<Rightarrow> exn option"
type_synonym renderer = "row \<Rightarrow> exn + string"

definition article_keys :: "string list" where
  "article_keys = [''date'', ''keyword'', ''headline'', ''description'', ''url'']"

text \<open>
  \<open>article and article.get(k)\<close>, as a truth value: \<open>None\<close> and the empty dict are
  false.
\<close>

fun has_field :: "article \<Rightarrow> string \<Rightarrow> bool" where
  "has_field None k = False"
| "has_field (Some d) k = (d \<noteq> [] \<and> truthy (dict_get d k))"

text \<open>
  The guard of \<open>save_to_csv\<close>:
  \<open>article and all(article.get(key) for key in ["date", ..., "url"])\<close>. This is the
  validity of an Article: all five fields present and non-empty.
\<close>

fun is_valid :: "article \<Rightarrow> bool" where
  "is_valid None = False"
| "is_valid (Some d) = (d \<noteq> [] \<and> list_all (\<lambda>k. truthy (dict_get d k)) article_keys)"

text \<open>The guard of \<open>save_urls\<close> and \<open>create_rated_csv\<close>: \<open>article and article.get("url")\<close>.\<close>

definition has_url :: "article \<Rightarrow> bool" where
  "has_url a = has_field a ''url''"

text \<open>The five cells of an Article, as \<open>dict.get\<close> reads them.\<close>

fun article_fields :: "article \<Rightarrow> row" where
  "article_fields None = []"
| "article_fields (Some d) = map (dict_get d) article_keys"

text \<open>
  \<open>writer.writerow(r)\<close> as a step of a loop body: the row is written, or the writer's
  exception is raised.
\<close>

definition writerow :: "renderer \<Rightarrow> row \<Rightarrow> exn + row option" where
  "writerow render r = (case render r of Inl e \<Rightarrow> Inl e | Inr t \<Rightarrow> Inr (Some r))"

text \<open>The text of the rows that were written, in the order they were written.\<close>

definition rows_text :: "renderer \<Rightarrow> row list \<Rightarrow> string" where
  "rows_text render rows =
     concat (map (\<lambda>r. case render r of Inl e \<Rightarrow> [] | Inr t \<Rightarrow> t) rows)"

text \<open>
  A loop \<open>for x in xs: if guard(x): writer.writerow(cells(x))\<close> inside a \<open>try\<close>:
  the body yields the row it has written, nothing when the guard fails, or the exception
  raised by the cells or by the writer. An exception ends the loop; the rows written
  before it stay in the file. The result is the rows written and the exception caught,
  if any.
\<close>

fun write_rows :: "('a \<Rightarrow> exn + row option) \<Rightarrow> 'a list \<Rightarrow> row list \<times> exn option" where
  "write_rows body [] = ([], None)"
| "write_rows body (x # xs) =
     (case body x of
        Inl e \<Rightarrow> ([], Some e)
      | Inr None \<Rightarrow> write_rows body xs
      | Inr (Some r) \<Rightarrow> (case write_rows body xs of (rs, e) \<Rightarrow> (r # rs, e)))"

subsection \<open>save_to_csv\<close>

definition csv_header :: row where
  "csv_header = map PStr [''date'', ''keyword'', ''title'', ''description'', ''url'']"

definition csv_body :: "renderer \<Rightarrow> article \<Rightarrow> exn + row option" where
  "csv_body render a =
     (case a of
        None \<Rightarrow> Inr None
      | Some d \<Rightarrow>
          if d \<noteq> [] \<and> list_all (\<lambda>k. truthy (dict_get d k)) article_keys
          then (case getitems d article_keys of
                  Inl e \<Rightarrow> Inl e
                | Inr r \<Rightarrow> writerow render r)
          else Inr None)"

text \<open>
  The first block of \<open>save_to_csv\<close>: when the path does not exist, the file is opened
  for writing, which creates it empty, and the header is written. The result is the
  file system reached, with the exception raised, if any.
\<close>

definition ensure_header :: "opener \<Rightarrow> renderer \<Rightarrow> string \<Rightarrow> files \<Rightarrow> files \<times> exn option" where
  "ensure_header open_error render filename fs =
     (if fs filename = None
      then (case open_error filename of
              Some e \<Rightarrow> (fs, Some e)
            | None \<Rightarrow>
                (case render csv_header of
                   Inl e \<Rightarrow> (fs(filename \<mapsto> []), Some e)
                 | Inr h \<Rightarrow> (fs(filename \<mapsto> h), None)))
      else (fs, None))"

text \<open>
  \<open>save_to_csv(articles, filename)\<close>: after the first block the file is opened for
  appending, and what the loop writes goes after the text the file holds. Every
  exception is caught by the handler, which logs it: the result is the new file system
  and the exception logged, if any.
\<close>

definition save_to_csv ::
  "opener \<Rightarrow> renderer \<Rightarrow> article list \<Rightarrow> string \<Rightarrow> files \<Rightarrow> files \<times> exn option" where
  "save_to_csv open_error render articles filename fs =
     (case ensure_header open_error render filename fs of
        (fs1, Some e) \<Rightarrow> (fs1, Some e)
      | (fs1, None) \<Rightarrow>
          (case open_error filename of
             Some e \<Rightarrow> (fs1, Some e)
           | None \<Rightarrow>
               (let old = (case fs1 filename of None \<Rightarrow> [] | Some t \<Rightarrow> t);
                    (rows, e) = write_rows (csv_body render) articles
                in (fs1(filename \<mapsto> old @ rows_text render rows), e))))"

subsection \<open>save_urls\<close>

definition url_body :: "renderer \<Rightarrow> article \<Rightarrow> exn + row option" where
  "url_body render a =
     (case a of
        None \<Rightarrow> Inr None
      | Some d \<Rightarrow>
          if d \<noteq> [] \<and> truthy (dict_get d ''url'')
          then (case getitem d ''url'' of Inl e \<Rightarrow> Inl e | Inr u \<Rightarrow> writerow render [u])
          else Inr None)"

text \<open>
  \<open>save_urls(articles, filename)\<close>: the file is opened for writing, which empties it;
  when it cannot be opened it is left as it was.
\<close>

definition save_urls ::
  "opener \<Rightarrow> renderer \<Rightarrow> article list \<Rightarrow> string \<Rightarrow> files \<Rightarrow> files \<times> exn option" where
  "save_urls open_error render articles filename fs =
     (case open_error filename of
        Some e \<Rightarrow> (fs, Some e)
      | None \<Rightarrow>
          (let (rows, e) = write_rows (url_body render) articles
           in (fs(filename \<mapsto> rows_text render rows), e)))"

subsection \<open>create_rated_csv\<close>

text \<open>Sequencing of steps that may raise: the first exception ends the evaluation.\<close>

definition try_bind :: "exn + 'a \<Rightarrow> ('a \<Rightarrow> exn + 'b) \<Rightarrow> exn + 'b" where
  "try_bind m f = (case m of Inl e \<Rightarrow> Inl e | Inr v \<Rightarrow> f v)"

definition rated_header :: row where
  "rated_header = map PStr
     [''date'', ''keyword'', ''title'', ''description'', ''url'',
      ''one-sentence-summary'', ''labels'', ''rating'',
      ''rating-explanation'', ''quality-score'', ''quality-score-explanation'']"

text \<open>The six analysis cells of a row, evaluated in the order of the list display.\<close>

definition analysis_cells :: "(pyval \<Rightarrow> string) \<Rightarrow> pyval \<Rightarrow> exn + row" where
  "analysis_cells strf an =
     try_bind (get_default an ''one-sentence-summary'' (PStr '''')) (\<lambda>summary.
     try_bind (get_default an ''labels'' (PStr '''')) (\<lambda>labels.
     try_bind (get_default an ''rating'' (PStr '''')) (\<lambda>rating.
     try_bind (get_default an ''rating-explanation'' (PList [])) (\<lambda>re.
     try_bind (py_join ''; '' re) (\<lambda>rating_explanation.
     try_bind (get_default an ''quality-score'' (PStr '''')) (\<lambda>qs.
     try_bind (get_default an ''quality-score-explanation'' (PList [])) (\<lambda>qe.
     try_bind (py_join ''; '' qe) (\<lambda>quality_explanation.
       Inr [summary, labels, rating, PStr rating_explanation,
            PStr (py_str strf qs), PStr quality_explanation]))))))))"

definition empty_analysis_cells :: row where
  "empty_analysis_cells = [PStr '''', PStr '''', PStr '''', PStr '''', PStr '''', PStr '''']"

text \<open>The body of the loop over \<open>zip(articles, analysis_results)\<close>.\<close>

fun rated_body :: "(pyval \<Rightarrow> string) \<Rightarrow> renderer \<Rightarrow> article \<times> pyval \<Rightarrow> exn + row option" where
  "rated_body strf render (None, analysis) = Inr None"
| "rated_body strf render (Some d, analysis) =
     (if d \<noteq> [] \<and> truthy (dict_get d ''url'')
      then if truthy analysis
        then try_bind (getitems d article_keys) (\<lambda>cells.
             try_bind (analysis_cells strf analysis) (\<lambda>acells.
               writerow render (cells @ acells)))
        else try_bind (getitems d article_keys) (\<lambda>cells.
               writerow render (cells @ empty_analysis_cells))
      else Inr None)"

definition rated_file :: string where
  "rated_file = ''grcdata_rated.csv''"

text \<open>
  \<open>create_rated_csv(articles, analysis_results)\<close>: the file is opened for writing, the
  header is written, then one row per pair that passes the guard. The whole body is in
  one \<open>try\<close>: the result is the new file system and the exception logged, if any.
\<close>

definition create_rated_csv ::
  "opener \<Rightarrow> (pyval \<Rightarrow> string) \<Rightarrow> renderer \<Rightarrow> article list \<Rightarrow> pyval list \<Rightarrow> files
     \<Rightarrow> files \<times> exn option" where
  "create_rated_csv open_error strf render articles analysis_results fs =
     (case open_error rated_file of
        Some e \<Rightarrow> (fs, Some e)
      | None \<Rightarrow>
          (case render rated_header of
             Inl e \<Rightarrow> (fs(rated_file \<mapsto> []), Some e)
           | Inr h \<Rightarrow>
               (let (rows, e) =
                      write_rows (rated_body strf render) (zip articles analysis_results)
                in (fs(rated_file \<mapsto> h @ rows_text render rows), e))))"

text \<open>
  The records of the rated dataset: the rows \<open>create_rated_csv\<close> writes after the
  header, none when the file cannot be opened or the header cannot be written.
\<close>

definition rated_records ::
  "opener \<Rightarrow> (pyval \<Rightarrow> string) \<Rightarrow> renderer \<Rightarrow> article list \<Rightarrow> pyval list \<Rightarrow> row list" where
  "rated_records open_error strf render articles analysis_results =
     (case open_error rated_file of
        Some e \<Rightarrow> []
      | None \<Rightarrow>
          (case render rated_header of
             Inl e \<Rightarrow> []
           | Inr h \<Rightarrow>
               fst (write_rows (rated_body strf render) (zip articles analysis_results))))"

section \<open>search_news\<close>

text \<open>
  \<open>x[k]\<close> with a string key on a decoded value: a dict looks the key up, every other
  value raises \<open>TypeError\<close>.
\<close>

definition py_getitem :: "pyval \<Rightarrow> string \<Rightarrow> exn + pyval" where
  "py_getitem x k = (case x of PDict d \<Rightarrow> getitem d k | _ \<Rightarrow> Inl TypeError)"

text \<open>
  A \<open>try\<close> body under \<open>except Exception\<close>: the handler's value replaces an exception
  that derives from \<open>Exception\<close>; any other propagates.
\<close>

definition except_Exception :: "exn + 'a \<Rightarrow> (exn \<Rightarrow> 'a) \<Rightarrow> exn + 'a" where
  "except_Exception body handler =
     (case body of
        Inl e \<Rightarrow> if is_Exception e then Inr (handler e) else Inl e
      | Inr v \<Rightarrow> Inr v)"

definition search_url :: "string \<Rightarrow> string \<Rightarrow> string \<Rightarrow> string \<Rightarrow> string" where
  "search_url api_key keyword language category =
     ''https://newsdata.io/api/1/news?apikey='' @ api_key @ ''&q='' @ keyword @
     ''&language='' @ language @ ''&category='' @ category"

text \<open>The dict built for one result item; \<open>today\<close> is the formatted current date.\<close>

definition item_article :: "string \<Rightarrow> string \<Rightarrow> pyval \<Rightarrow> exn + dict" where
  "item_article today keyword item =
     try_bind (py_getitem item ''title'') (\<lambda>title.
     try_bind (py_getitem item ''description'') (\<lambda>description.
     try_bind (py_getitem item ''link'') (\<lambda>link.
       Inr [(''date'', PStr today), (''keyword'', PStr keyword), (''headline'', title),
            (''description'', description), (''url'', link)])))"

text \<open>The loop that appends one dict per item; an exception leaves the loop.\<close>

fun collect :: "('a \<Rightarrow> exn + 'b) \<Rightarrow> 'a list \<Rightarrow> exn + 'b list" where
  "collect f [] = Inr []"
| "collect f (x # xs) =
     try_bind (f x) (\<lambda>y. try_bind (collect f xs) (\<lambda>ys. Inr (y # ys)))"

text \<open>
  \<open>search_news(keyword, api_key, category, language)\<close>. The parameter \<open>http_get\<close> is
  the outcome of \<open>requests.get(url)\<close> followed by \<open>response.json()\<close>: the decoded
  response, or the exception raised.
\<close>

definition search_news ::
  "(string \<Rightarrow> exn + pyval) \<Rightarrow> string \<Rightarrow> string \<Rightarrow> string \<Rightarrow> string \<Rightarrow> string
     \<Rightarrow> exn + dict list" where
  "search_news http_get today keyword api_key category language =
     except_Exception
       (try_bind (http_get (search_url api_key keyword language category)) (\<lambda>data.
        try_bind (py_getitem data ''status'') (\<lambda>status.
          if status = PStr ''success''
          then try_bind (py_getitem data ''results'') (\<lambda>results.
               try_bind (py_iter results) (\<lambda>items.
                 collect (item_article today keyword) items))
          else Inr [])))
       (\<lambda>e. [])"

section \<open>extract_article_content\<close>

text \<open>
  The behaviour of the newspaper library on one URL: the exception each call raises, if
  any, and the attributes of the parsed article. The publish date is a date-time object
  or \<open>None\<close>.
\<close>

record 'dt np_article =
  init_raises :: "exn option"
  download_raises :: "exn option"
  parse_raises :: "exn option"
  nlp_raises :: "exn option"
  np_title :: pyval
  np_keywords :: pyval
  np_authors :: pyval
  np_summary :: pyval
  np_text :: pyval
  np_publish_date :: "'dt option"

text \<open>\<open>x or y\<close> and \<open>x if x else y\<close>.\<close>

definition py_or :: "pyval \<Rightarrow> pyval \<Rightarrow> pyval" where
  "py_or x y = (if truthy x then x else y)"

definition not_found :: pyval where
  "not_found = PStr ''Not Found''"

text \<open>A call that returns nothing and may raise.\<close>

definition raising :: "exn option \<Rightarrow> exn + unit" where
  "raising r = (case r of Some e \<Rightarrow> Inl e | None \<Rightarrow> Inr ())"

text \<open>The record returned inside the \<open>try\<close>; \<open>isoformat\<close> is the date-time's method.\<close>

definition content_record :: "('dt \<Rightarrow> string) \<Rightarrow> 'dt np_article \<Rightarrow> pyval \<Rightarrow> dict" where
  "content_record isoformat art url =
     [(''title'', py_or (np_title art) not_found),
      (''keywords'', py_or (np_keywords art) (PList [])),
      (''authors'', py_or (np_authors art) (PList [not_found])),
      (''summary'', py_or (np_summary art) not_found),
      (''text'', py_or (np_text art) not_found),
      (''publish_date'',
         (case np_publish_date art of Some d \<Rightarrow> PStr (isoformat d) | None \<Rightarrow> not_found)),
      (''url'', url)]"

text \<open>What \<open>logger.error\<close> records in the handler: the URL and the exception.\<close>

datatype log_entry = FailedToProcess pyval exn

text \<open>
  \<open>extract_article_content(url)\<close>: the Article object is constructed before the \<open>try\<close>.
  The result is the exception that leaves the function, or the value returned (\<open>None\<close>
  or the record) with the log entries written.
\<close>

definition extract_article_content ::
  "('dt \<Rightarrow> string) \<Rightarrow> 'dt np_article \<Rightarrow> pyval \<Rightarrow> exn + (dict option \<times> log_entry list)" where
  "extract_article_content isoformat art url =
     try_bind (raising (init_raises art)) (\<lambda>_.
       except_Exception
         (try_bind (raising (download_raises art)) (\<lambda>_.
          try_bind (raising (parse_raises art)) (\<lambda>_.
          try_bind (raising (nlp_raises art)) (\<lambda>_.
            Inr (Some (content_record isoformat art url), [])))))
         (\<lambda>e. (None, [FailedToProcess url e])))"

section \<open>analyze_with_fabric\<close>

text \<open>The value of \<open>platform.system()\<close>.\<close>

datatype platform = Darwin | Linux | Windows | OtherSystem string

text \<open>
  \<open>get_clipboard_command()\<close>: \<open>xclip_probe\<close> is the exception raised by running
  \<open>xclip -version\<close>, if any. A missing xclip and an unsupported system end the process
  with \<open>sys.exit(1)\<close>.
\<close>

definition get_clipboard_command :: "platform \<Rightarrow> exn option \<Rightarrow> exn + string list" where
  "get_clipboard_command sys xclip_probe =
     (case sys of
        Darwin \<Rightarrow> Inr [''pbpaste'']
      | Linux \<Rightarrow>
          (case xclip_probe of
             None \<Rightarrow> Inr [''xclip'', ''-selection'', ''clipboard'', ''-o'']
           | Some FileNotFoundError \<Rightarrow> Inl (SystemExit 1)
           | Some e \<Rightarrow> Inl e)
      | Windows \<Rightarrow> Inr [''powershell.exe'', ''-command'', ''Get-Clipboard'']
      | OtherSystem _ \<Rightarrow> Inl (SystemExit 1))"

text \<open>
  What surrounds one call of \<open>analyze_with_fabric\<close>: the system, the names
  \<open>NamedTemporaryFile\<close> gives to the two files it creates, and the outcome of each
  external step: the copy command on its input, the probe for xclip, the shell pipeline
  into fabric (with its timeout), and reading and decoding the output file.
\<close>

record fabric_world =
  system :: platform
  temp_file_path :: string
  output_path :: string
  run_copy :: "string \<Rightarrow> string \<Rightarrow> exn option"
  xclip_probe :: "exn option"
  run_shell :: "string \<Rightarrow> exn option"
  read_json :: "string \<Rightarrow> exn + pyval"

definition newline :: string where
  "newline = [CHR 0x0A]"

definition dquote :: string where
  "dquote = [CHR 0x22]"

text \<open>The text written to the input file.\<close>

definition format_content :: "(pyval \<Rightarrow> string) \<Rightarrow> dict \<Rightarrow> exn + string" where
  "format_content strf content =
     try_bind (getitem content ''title'') (\<lambda>title.
     try_bind (getitem content ''authors'') (\<lambda>authors.
     try_bind (py_join '', '' authors) (\<lambda>authors_joined.
     try_bind (getitem content ''keywords'') (\<lambda>keywords.
     try_bind (py_join '', '' keywords) (\<lambda>keywords_joined.
     try_bind (getitem content ''summary'') (\<lambda>summary.
     try_bind (getitem content ''url'') (\<lambda>url.
       Inr (''Title: '' @ py_str strf title @ newline @
            ''Authors: '' @ authors_joined @ newline @
            ''Keywords: '' @ keywords_joined @ newline @
            ''Summary: '' @ py_str strf summary @ newline @
            ''URL: '' @ py_str strf url @ newline))))))))"

definition copy_command :: "platform \<Rightarrow> string" where
  "copy_command sys = (if sys = Darwin then ''pbcopy'' else ''clip'')"

definition fabric_cmd :: "string list \<Rightarrow> string \<Rightarrow> string" where
  "fabric_cmd clipboard_cmd out =
     join_strs '' '' clipboard_cmd @ '' | fabric -p label_and_rate -o '' @ dquote @ out @ dquote"

text \<open>\<open>os.unlink(path)\<close> on the set of transient files that exist.\<close>

definition unlink :: "string \<Rightarrow> string set \<Rightarrow> exn + string set" where
  "unlink p tmp = (if p \<in> tmp then Inr (tmp - {p}) else Inl FileNotFoundError)"

text \<open>
  The handler \<open>except Exception: ... return None\<close> at the state reached: the files that
  exist at that point stay.
\<close>

definition fabric_handler :: "exn \<Rightarrow> string set \<Rightarrow> (exn + pyval) \<times> string set" where
  "fabric_handler e tmp = (if is_Exception e then (Inr PNone, tmp) else (Inl e, tmp))"

text \<open>
  \<open>analyze_with_fabric(content)\<close> on the set of transient files that exist: the value
  returned, or the exception that leaves the function, and the transient files that exist
  afterwards. Both files are created with \<open>delete=False\<close>, which is taken to succeed;
  they are unlinked after the output has been decoded.
\<close>

definition analyze_with_fabric ::
  "(pyval \<Rightarrow> string) \<Rightarrow> fabric_world \<Rightarrow> dict \<Rightarrow> string set \<Rightarrow> (exn + pyval) \<times> string set" where
  "analyze_with_fabric strf w content tmp =
     (let tmp1 = insert (temp_file_path w) tmp in
      case format_content strf content of
        Inl e \<Rightarrow> fabric_handler e tmp1
      | Inr text \<Rightarrow>
     (case run_copy w (copy_command (system w)) text of
        Some e \<Rightarrow> fabric_handler e tmp1
      | None \<Rightarrow>
     (let tmp2 = insert (output_path w) tmp1 in
      case get_clipboard_command (system w) (xclip_probe w) of
        Inl e \<Rightarrow> fabric_handler e tmp2
      | Inr clipboard_cmd \<Rightarrow>
     (case run_shell w (fabric_cmd clipboard_cmd (output_path w)) of
        Some e \<Rightarrow> fabric_handler e tmp2
      | None \<Rightarrow>
     (case read_json w (output_path w) of
        Inl e \<Rightarrow> fabric_handler e tmp2
      | Inr fabric_data \<Rightarrow>
     (case unlink (temp_file_path w) tmp2 of
        Inl e \<Rightarrow> fabric_handler e tmp2
      | Inr tmp3 \<Rightarrow>
     (case unlink (output_path w) tmp3 of
        Inl e \<Rightarrow> fabric_handler e tmp3
      | Inr tmp4 \<Rightarrow> (Inr fabric_data, tmp4))))))))"

section \<open>The processing loop of main\<close>



section \<open>Notions used in the statements\<close>

text \<open>The URL cell of an Article, as \<open>dict.get\<close> reads it.\<close>

definition article_url :: "article \<Rightarrow> pyval" where
  "article_url a = (case a of None \<Rightarrow> PNone | Some d \<Rightarrow> dict_get d ''url'')"

text \<open>An item of a search response that carries the three keys the mapping reads.\<close>

definition has_item_keys :: "pyval \<Rightarrow> bool" where
  "has_item_keys item =
     (case item of
        PDict d \<Rightarrow> map_of d ''title'' \<noteq> None \<and> map_of d ''description'' \<noteq> None
                    \<and> map_of d ''link'' \<noteq> None
      | _ \<Rightarrow> False)"

text \<open>The Article the mapping gives for such an item.\<close>

definition item_dict :: "string \<Rightarrow> string \<Rightarrow> pyval \<Rightarrow> dict" where
  "item_dict today keyword item =
     (case item of
        PDict d \<Rightarrow>
          [(''date'', PStr today), (''keyword'', PStr keyword),
           (''headline'', dict_get d ''title''),
           (''description'', dict_get d ''description''),
           (''url'', dict_get d ''link'')]
      | _ \<Rightarrow> [])"

text \<open>The first exception raised inside the \<open>try\<close> of \<open>extract_article_content\<close>.\<close>

definition first_raise :: "'dt np_article \<Rightarrow> exn option" where
  "first_raise art =
     (case download_raises art of
        Some e \<Rightarrow> Some e
      | None \<Rightarrow> (case parse_raises art of Some e \<Rightarrow> Some e | None \<Rightarrow> nlp_raises art))"

text \<open>The keys of the record \<open>extract_article_content\<close> returns.\<close>

definition content_keys :: "string list" where
  "content_keys = [''title'', ''keywords'', ''authors'', ''summary'', ''text'', ''publish_date'', ''url'']"


text \<open>
  What a writer makes of a list of rows: the rows before the first it cannot render,
  and the exception that one raises.
\<close>

fun written :: "renderer \<Rightarrow> row list \<Rightarrow> row list \<times> exn option" where
  "written render [] = ([], None)"
| "written render (r # rs) =
     (case render r of
        Inl e \<Rightarrow> ([], Some e)
      | Inr t \<Rightarrow> (case written render rs of (ws, e) \<Rightarrow> (r # ws, e)))"

text \<open>
  An instance of the writer, for the closed examples: on cells that are \<open>None\<close> or
  strings with no comma, quote or line break, the default csv dialect writes the cells
  separated by commas and ends the line with CR LF.
\<close>

definition crlf :: string where
  "crlf = [CHR 0x0D, CHR 0x0A]"

definition cell_text :: "pyval \<Rightarrow> string" where
  "cell_text v = (case v of PStr s \<Rightarrow> s | _ \<Rightarrow> [])"

definition csv_line :: renderer where
  "csv_line r = Inr (join_strs '','' (map cell_text r) @ crlf)"




text \<open>The rows of the valid Articles, and the URL rows of the Articles with a url.\<close>

definition valid_rows :: "article list \<Rightarrow> row list" where
  "valid_rows articles = map article_fields (filter is_valid articles)"

definition url_rows :: "article list \<Rightarrow> row list" where
  "url_rows articles = map (\<lambda>a. [article_url a]) (filter has_url articles)"

section \<open>The article store\<close>

lemmas ex_defs = csv_line_def cell_text_def crlf_def rows_text_def valid_rows_def url_rows_def
  article_url_def article_keys_def dict_get_def getitem_def has_url_def csv_header_def

lemma getitems_present:
  "list_all (\<lambda>k. truthy (dict_get d k)) ks \<Longrightarrow> getitems d ks = Inr (map (dict_get d) ks)"
  by (induction ks) (auto simp: getitem_def dict_get_def split: option.splits)

lemma csv_body_valid:
  "csv_body render a = (if is_valid a then writerow render (article_fields a) else Inr None)"
  by (cases a) (auto simp: csv_body_def getitems_present)

lemma url_body_has_url:
  "url_body render a = (if has_url a then writerow render [article_url a] else Inr None)"
  by (cases a)
    (auto simp: url_body_def has_url_def article_url_def getitem_def dict_get_def
          split: option.splits)

lemma write_rows_written:
  "(\<And>x. body x = (if P x then writerow render (r x) else Inr None))
     \<Longrightarrow> write_rows body xs = written render (map r (filter P xs))"
proof (induction xs)
  case Nil
  then show ?case by simp
next
  case (Cons x xs)
  have ih: "write_rows body xs = written render (map r (filter P xs))"
    by (rule Cons.IH) (rule Cons.prems)
  show ?case
  proof (cases "P x")
    case False
    with Cons.prems[of x] ih show ?thesis by simp
  next
    case True
    show ?thesis
    proof (cases "render (r x)")
      case (Inl e)
      with True Cons.prems[of x] show ?thesis by (simp add: writerow_def)
    next
      case (Inr t)
      with True Cons.prems[of x] ih show ?thesis by (simp add: writerow_def)
    qed
  qed
qed

lemma written_all: "\<forall>r. \<exists>t. render r = Inr t \<Longrightarrow> written render rs = (rs, None)"
proof (induction rs)
  case Nil
  then show ?case by simp
next
  case (Cons r rs)
  from Cons.prems obtain t where "render r = Inr t" by blast
  with Cons show ?case by simp
qed

lemma write_rows_csv: "write_rows (csv_body render) xs = written render (valid_rows xs)"
  unfolding valid_rows_def by (rule write_rows_written) (rule csv_body_valid)

lemma write_rows_url: "write_rows (url_body render) xs = written render (url_rows xs)"
  unfolding url_rows_def by (rule write_rows_written) (rule url_body_has_url)


lemma save_to_csv_unopenable:
  "open_error filename = Some e \<Longrightarrow>
   save_to_csv open_error render articles filename fs = (fs, Some e)"
  by (simp add: save_to_csv_def ensure_header_def)


lemma save_to_csv_opened:
  assumes "open_error filename = None" and "render csv_header = Inr h"
  shows "save_to_csv open_error render articles filename fs =
     (fs(filename \<mapsto> (case fs filename of None \<Rightarrow> h | Some old \<Rightarrow> old)
            @ rows_text render (fst (written render (valid_rows articles)))),
      snd (written render (valid_rows articles)))"
proof (cases "fs filename")
  case None
  with assms show ?thesis
    by (simp add: save_to_csv_def ensure_header_def write_rows_csv split: prod.splits)
next
  case (Some old)
  with assms show ?thesis
    by (simp add: save_to_csv_def ensure_header_def write_rows_csv split: prod.splits)
qed

lemma save_urls_file:
  "fst (save_urls open_error render articles filename fs) filename =
     (case open_error filename of
        Some e \<Rightarrow> fs filename
      | None \<Rightarrow> Some (rows_text render (fst (written render (url_rows articles)))))"
  by (simp add: save_urls_def write_rows_url split: option.splits prod.splits)

text \<open>
  C7, as the claim states it, fails: the destination does not exist and cannot be
  created (its directory is missing), so opening it raises; \<open>save_to_csv\<close> logs the
  exception and writes neither the header nor the row of the valid Article.
\<close>

theorem save_to_csv_missing_directory:
  "fst (save_to_csv (\<lambda>p. Some FileNotFoundError) csv_line
          [Some [(''date'', PStr ''2024-01-01''), (''keyword'', PStr ''ransomware''),
             (''headline'', PStr ''X''), (''description'', PStr ''Y''), (''url'', PStr ''http://u'')]]
          ''nodir/grcdata.csv'' Map.empty) ''nodir/grcdata.csv'' = None
   \<and> snd (save_to_csv (\<lambda>p. Some FileNotFoundError) csv_line
          [Some [(''date'', PStr ''2024-01-01''), (''keyword'', PStr ''ransomware''),
             (''headline'', PStr ''X''), (''description'', PStr ''Y''), (''url'', PStr ''http://u'')]]
          ''nodir/grcdata.csv'' Map.empty) = Some FileNotFoundError"
  by (simp add: save_to_csv_def ensure_header_def)

text \<open>
  Appending goes on from the end of the text the file holds: when that text does not
  end with a line terminator, the first new row continues its last line.
\<close>

lemma save_to_csv_unterminated_line:
  "fst (save_to_csv (\<lambda>p. None) csv_line
          [Some [(''date'', PStr ''2024-01-01''), (''keyword'', PStr ''ransomware''),
             (''headline'', PStr ''X''), (''description'', PStr ''Y''), (''url'', PStr ''http://u'')]]
          ''grcdata.csv'' [''grcdata.csv'' \<mapsto> ''d,k,t,x,http://old'']) ''grcdata.csv''
     = Some (''d,k,t,x,http://old2024-01-01,ransomware,X,Y,http://u'' @ crlf)"
  by (simp add: save_to_csv_def ensure_header_def csv_body_def writerow_def ex_defs)

text \<open>
  C7, amended. When the destination cannot be opened, \<open>save_to_csv\<close> leaves the file
  system as it was and logs the exception. When it can be opened and the header can be
  written, the destination ends up holding its previous text unchanged, or the header
  line alone when it did not exist, followed by the rows the writer makes of the valid
  Articles, in input order; the exception logged is the writer's, if any. Two such runs
  on a destination that did not exist leave the header once, then the rows of the first
  run, then those of the second. A writer that raises on no row writes the rows of
  exactly the valid Articles.
\<close>

theorem save_to_csv_appends:
  "(open_error filename = Some e \<longrightarrow>
      save_to_csv open_error render articles filename fs = (fs, Some e))
   \<and> (open_error filename = None \<and> render csv_header = Inr h \<longrightarrow>
        save_to_csv open_error render articles filename fs =
          (fs(filename \<mapsto> (case fs filename of None \<Rightarrow> h | Some old \<Rightarrow> old)
                 @ rows_text render (fst (written render (valid_rows articles)))),
           snd (written render (valid_rows articles)))
        \<and> fst (save_to_csv open_error render ys filename
                 (fst (save_to_csv open_error render xs filename (fs(filename := None)))))
              filename =
            Some (h @ rows_text render (fst (written render (valid_rows xs)))
                    @ rows_text render (fst (written render (valid_rows ys)))))
   \<and> ((\<forall>r. \<exists>t. render r = Inr t) \<longrightarrow>
        written render (valid_rows articles) = (valid_rows articles, None))"
proof (intro conjI impI)
  assume "open_error filename = Some e"
  then show "save_to_csv open_error render articles filename fs = (fs, Some e)"
    by (rule save_to_csv_unopenable)
next
  assume a: "open_error filename = None \<and> render csv_header = Inr h"
  then show "save_to_csv open_error render articles filename fs =
          (fs(filename \<mapsto> (case fs filename of None \<Rightarrow> h | Some old \<Rightarrow> old)
                 @ rows_text render (fst (written render (valid_rows articles)))),
           snd (written render (valid_rows articles)))"
    by (simp add: save_to_csv_opened)
  from a show "fst (save_to_csv open_error render ys filename
                 (fst (save_to_csv open_error render xs filename (fs(filename := None)))))
              filename =
            Some (h @ rows_text render (fst (written render (valid_rows xs)))
                    @ rows_text render (fst (written render (valid_rows ys))))"
    by (simp add: save_to_csv_opened)
next
  assume "\<forall>r. \<exists>t. render r = Inr t"
  then show "written render (valid_rows articles) = (valid_rows articles, None)"
    by (rule written_all)
qed

theorem save_to_csv_appends_witness:
  "save_to_csv (\<lambda>p. None) csv_line
     [Some [(''date'', PStr ''2024-01-01''), (''keyword'', PStr ''ransomware''),
        (''headline'', PStr ''X''), (''description'', PStr ''Y''), (''url'', PStr ''http://u'')],
      Some [(''date'', PStr ''2024-01-01''), (''keyword'', PStr ''ransomware''),
        (''headline'', PStr ''Z''), (''description'', PNone), (''url'', PStr ''http://v'')]]
     ''grcdata.csv'' Map.empty
   = ([''grcdata.csv'' \<mapsto>
         ''date,keyword,title,description,url'' @ crlf @
         ''2024-01-01,ransomware,X,Y,http://u'' @ crlf], None)"
proof -
  let ?arts = "[Some [(''date'', PStr ''2024-01-01''), (''keyword'', PStr ''ransomware''),
        (''headline'', PStr ''X''), (''description'', PStr ''Y''), (''url'', PStr ''http://u'')],
      Some [(''date'', PStr ''2024-01-01''), (''keyword'', PStr ''ransomware''),
        (''headline'', PStr ''Z''), (''description'', PNone), (''url'', PStr ''http://v'')]]"
  let ?h = "''date,keyword,title,description,url'' @ crlf"
  have o: "(\<lambda>p::string. None :: exn option) ''grcdata.csv'' = None \<and> csv_line csv_header = Inr ?h"
    by (simp add: ex_defs)
  from save_to_csv_appends[of "\<lambda>p. None" "''grcdata.csv''" FileNotFoundError csv_line ?arts
      Map.empty ?h "[]" "[]"]
  have "(\<lambda>p::string. None :: exn option) ''grcdata.csv'' = None \<and> csv_line csv_header = Inr ?h \<longrightarrow>
        save_to_csv (\<lambda>p. None) csv_line ?arts ''grcdata.csv'' Map.empty =
          (Map.empty(''grcdata.csv'' \<mapsto> (case Map.empty ''grcdata.csv'' of None \<Rightarrow> ?h | Some old \<Rightarrow> old)
                 @ rows_text csv_line (fst (written csv_line (valid_rows ?arts)))),
           snd (written csv_line (valid_rows ?arts)))
        \<and> fst (save_to_csv (\<lambda>p. None) csv_line [] ''grcdata.csv''
                 (fst (save_to_csv (\<lambda>p. None) csv_line [] ''grcdata.csv'' (Map.empty(''grcdata.csv'' := None)))))
              ''grcdata.csv'' =
            Some (?h @ rows_text csv_line (fst (written csv_line (valid_rows [])))
                    @ rows_text csv_line (fst (written csv_line (valid_rows []))))"
    by (rule conjunct1[OF conjunct2])
  from this o have "save_to_csv (\<lambda>p. None) csv_line ?arts ''grcdata.csv'' Map.empty =
          (Map.empty(''grcdata.csv'' \<mapsto> (case Map.empty ''grcdata.csv'' of None \<Rightarrow> ?h | Some old \<Rightarrow> old)
                 @ rows_text csv_line (fst (written csv_line (valid_rows ?arts)))),
           snd (written csv_line (valid_rows ?arts)))"
    by blast
  then show ?thesis by (simp add: ex_defs)
qed

text \<open>
  C9, as the claim states it, fails: a destination that cannot be opened keeps the
  text it held, also after two calls; the content of the call does not replace it.
\<close>

theorem save_urls_unopenable_keeps_content:
  "fst (save_urls (\<lambda>p. Some PermissionError) csv_line
          [Some [(''date'', PStr ''2024-01-01''), (''keyword'', PStr ''ransomware''),
             (''headline'', PStr ''X''), (''description'', PStr ''Y''), (''url'', PStr ''http://u'')]]
          ''urls.csv''
          (fst (save_urls (\<lambda>p. Some PermissionError) csv_line
             [Some [(''date'', PStr ''2024-01-01''), (''keyword'', PStr ''ransomware''),
                (''headline'', PStr ''X''), (''description'', PStr ''Y''), (''url'', PStr ''http://u'')]]
             ''urls.csv'' [''urls.csv'' \<mapsto> ''http://old'' @ crlf])))
       ''urls.csv''
     = Some (''http://old'' @ crlf)"
  by (simp add: save_urls_def)

text \<open>
  C9, amended. \<open>save_urls\<close> is idempotent on every destination: a second call with
  the same input gives the result of the first. When the destination can be opened, it
  holds afterwards the rows the writer makes of this call's URLs and nothing of what it
  held before; when it cannot be opened, it holds what it held before.
\<close>

theorem save_urls_idempotent:
  "save_urls open_error render articles filename
     (fst (save_urls open_error render articles filename fs)) =
     save_urls open_error render articles filename fs
   \<and> fst (save_urls open_error render articles filename fs) filename =
       (case open_error filename of
          Some e \<Rightarrow> fs filename
        | None \<Rightarrow> Some (rows_text render (fst (written render (url_rows articles)))))"
proof
  show "save_urls open_error render articles filename
     (fst (save_urls open_error render articles filename fs)) =
     save_urls open_error render articles filename fs"
    by (simp add: save_urls_def split: option.splits prod.splits)
  show "fst (save_urls open_error render articles filename fs) filename =
       (case open_error filename of
          Some e \<Rightarrow> fs filename
        | None \<Rightarrow> Some (rows_text render (fst (written render (url_rows articles)))))"
    by (rule save_urls_file)
qed

theorem save_urls_idempotent_witness:
  "save_urls (\<lambda>p. None) csv_line
     [Some [(''date'', PStr ''2024-01-01''), (''keyword'', PStr ''ransomware''),
        (''headline'', PStr ''X''), (''description'', PStr ''Y''), (''url'', PStr ''http://u'')]]
     ''urls.csv''
     (fst (save_urls (\<lambda>p. None) csv_line
        [Some [(''date'', PStr ''2024-01-01''), (''keyword'', PStr ''ransomware''),
           (''headline'', PStr ''X''), (''description'', PStr ''Y''), (''url'', PStr ''http://u'')]]
        ''urls.csv'' [''urls.csv'' \<mapsto> ''http://old'' @ crlf]))
   = ([''urls.csv'' \<mapsto> ''http://u'' @ crlf], None)"
proof -
  let ?arts = "[Some [(''date'', PStr ''2024-01-01''), (''keyword'', PStr ''ransomware''),
        (''headline'', PStr ''X''), (''description'', PStr ''Y''), (''url'', PStr ''http://u'')]]"
  let ?fs = "[''urls.csv'' \<mapsto> ''http://old'' @ crlf]"
  from save_urls_idempotent[of "\<lambda>p. None" csv_line ?arts "''urls.csv''" ?fs]
  have "save_urls (\<lambda>p. None) csv_line ?arts ''urls.csv''
          (fst (save_urls (\<lambda>p. None) csv_line ?arts ''urls.csv'' ?fs))
        = save_urls (\<lambda>p. None) csv_line ?arts ''urls.csv'' ?fs"
    by (rule conjunct1)
  also have "\<dots> = ([''urls.csv'' \<mapsto> ''http://u'' @ crlf], None)"
    by (simp add: save_urls_def url_body_def writerow_def ex_defs)
  finally show ?thesis .
qed




section \<open>The rated dataset\<close>

lemmas rated_ex_defs = create_rated_csv_def rated_records_def rated_header_def rated_file_def
  writerow_def try_bind_def analysis_cells_def get_default_def py_join_def py_str_def
  empty_analysis_cells_def











lemma write_rows_append:
  "write_rows body ps = (rs, None) \<Longrightarrow>
   write_rows body (ps @ qs) = (rs @ fst (write_rows body qs), snd (write_rows body qs))"
proof (induction ps arbitrary: rs)
  case Nil
  then show ?case by simp
next
  case (Cons p ps)
  show ?case
  proof (cases "body p")
    case (Inl e)
    with Cons.prems show ?thesis by simp
  next
    case (Inr res)
    show ?thesis
    proof (cases res)
      case None
      with Inr Cons show ?thesis by simp
    next
      case (Some r)
      with Inr Cons.prems obtain rs' where rs': "write_rows body ps = (rs', None)" "rs = r # rs'"
        by (auto split: prod.splits)
      from Cons.IH[OF rs'(1)] rs'(2) Inr Some show ?thesis by simp
    qed
  qed
qed






lemma create_rated_csv_opened:
  assumes "open_error rated_file = None" and "render rated_header = Inr h"
  shows "create_rated_csv open_error strf render articles analyses fs =
      (fs(rated_file \<mapsto> h @ rows_text render
             (fst (write_rows (rated_body strf render) (zip articles analyses)))),
       snd (write_rows (rated_body strf render) (zip articles analyses)))"
    and "rated_records open_error strf render articles analyses =
      fst (write_rows (rated_body strf render) (zip articles analyses))"
  using assms by (simp_all add: create_rated_csv_def rated_records_def split: prod.splits)



lemma rows_text_Cons:
  "render r = Inr t \<Longrightarrow> rows_text render (r # rs) = t @ rows_text render rs"
  by (simp add: rows_text_def)

lemma rows_text_append: "rows_text render (rs @ rs') = rows_text render rs @ rows_text render rs'"
  by (simp add: rows_text_def)



lemma valid_fields:
  assumes "is_valid a"
  shows "length (article_fields a) = 5 \<and> list_all truthy (article_fields a)
     \<and> (\<exists>d. a = Some d \<and> d \<noteq> [] \<and> truthy (dict_get d ''url'')
            \<and> getitems d article_keys = Inr (article_fields a))"
proof (cases a)
  case None
  with assms show ?thesis by simp
next
  case (Some d)
  with assms have v: "d \<noteq> []" "list_all (\<lambda>k. truthy (dict_get d k)) article_keys" by simp_all
  from v(2) have g: "getitems d article_keys = Inr (map (dict_get d) article_keys)"
    by (rule getitems_present)
  from v(2) have t: "list_all truthy (map (dict_get d) article_keys)"
    by (simp add: list_all_iff)
  from v(2) have u: "truthy (dict_get d ''url'')" by (simp add: article_keys_def)
  show ?thesis using Some v(1) g t u by (simp add: article_keys_def)
qed




text \<open>
  C3, as the claim states it, fails: the loop is inside one \<open>try\<close>, so when the pair
  before raises (here the analysis is a string, which has no \<open>get\<close>), the valid Article
  with an absent analysis after it gets no record.
\<close>

theorem rated_csv_drops_after_exception:
  "is_valid (Some [(''date'', PStr ''2024-01-01''), (''keyword'', PStr ''ransomware''),
        (''headline'', PStr ''Z''), (''description'', PStr ''W''), (''url'', PStr ''http://v'')])
   \<and> \<not> truthy PNone
   \<and> create_rated_csv (\<lambda>p. None) (\<lambda>v. '''') csv_line
        [Some [(''date'', PStr ''2024-01-01''), (''keyword'', PStr ''ransomware''),
          (''headline'', PStr ''X''), (''description'', PStr ''Y''), (''url'', PStr ''http://u'')],
         Some [(''date'', PStr ''2024-01-01''), (''keyword'', PStr ''ransomware''),
          (''headline'', PStr ''Z''), (''description'', PStr ''W''), (''url'', PStr ''http://v'')]]
        [PStr ''oops'', PNone] Map.empty
       = ([''grcdata_rated.csv'' \<mapsto>
            ''date,keyword,title,description,url,one-sentence-summary,labels,rating,''
            @ ''rating-explanation,quality-score,quality-score-explanation'' @ crlf],
          Some AttributeError)
   \<and> rated_records (\<lambda>p. None) (\<lambda>v. '''') csv_line
        [Some [(''date'', PStr ''2024-01-01''), (''keyword'', PStr ''ransomware''),
          (''headline'', PStr ''X''), (''description'', PStr ''Y''), (''url'', PStr ''http://u'')],
         Some [(''date'', PStr ''2024-01-01''), (''keyword'', PStr ''ransomware''),
          (''headline'', PStr ''Z''), (''description'', PStr ''W''), (''url'', PStr ''http://v'')]]
        [PStr ''oops'', PNone] = []"
  by (simp add: rated_ex_defs ex_defs)

text \<open>
  C3, amended. Take a valid Article paired with an absent analysis (\<open>None\<close>, or any
  value that tests false). When the file can be opened, the header and the Article's
  record can be written, and no pair before it raises, \<open>create_rated_csv\<close> writes the
  record in its place: after the header and the records of the pairs before it, and
  before those of the pairs after it. The record is the five Article cells, all of them
  non-empty, followed by six empty strings.
\<close>

theorem absent_analysis_row:
  assumes "open_error rated_file = None" and "render rated_header = Inr h"
    and "is_valid a" and "\<not> truthy analysis"
    and "render (article_fields a @ replicate 6 (PStr '''')) = Inr t"
    and "length before = length before_analyses"
    and "write_rows (rated_body strf render) (zip before before_analyses) = (rs, None)"
  shows "fst (create_rated_csv open_error strf render
                (before @ a # after) (before_analyses @ analysis # after_analyses) fs) rated_file
       = Some (h @ rows_text render rs @ t
                 @ rows_text render
                     (fst (write_rows (rated_body strf render) (zip after after_analyses))))
    \<and> rated_records open_error strf render
         (before @ a # after) (before_analyses @ analysis # after_analyses)
       = rs @ (article_fields a @ replicate 6 (PStr ''''))
            # fst (write_rows (rated_body strf render) (zip after after_analyses))
    \<and> length (article_fields a) = 5 \<and> list_all truthy (article_fields a)"
proof -
  let ?row = "article_fields a @ replicate 6 (PStr '''')"
  let ?rest = "fst (write_rows (rated_body strf render) (zip after after_analyses))"
  from valid_fields[OF assms(3)] obtain d where d: "a = Some d" "d \<noteq> []"
      "truthy (dict_get d ''url'')" "getitems d article_keys = Inr (article_fields a)"
      and l: "length (article_fields a) = 5" "list_all truthy (article_fields a)"
    by blast
  have six: "replicate 6 (PStr '''') = empty_analysis_cells"
    by (simp add: empty_analysis_cells_def numeral_eq_Suc)
  have w: "writerow render ?row = Inr (Some ?row)"
    using assms(5) by (simp add: writerow_def)
  have row: "rated_body strf render (a, analysis) = Inr (Some ?row)"
    using d assms(4) w unfolding six by (simp add: try_bind_def)
  have z: "zip (before @ a # after) (before_analyses @ analysis # after_analyses)
      = zip before before_analyses @ (a, analysis) # zip after after_analyses"
    using assms(6) by simp
  have W: "fst (write_rows (rated_body strf render)
        (zip (before @ a # after) (before_analyses @ analysis # after_analyses)))
      = rs @ ?row # ?rest"
    unfolding z using write_rows_append[OF assms(7), of "(a, analysis) # zip after after_analyses"] row
    by (simp split: prod.splits)
  have 1: "fst (create_rated_csv open_error strf render
                (before @ a # after) (before_analyses @ analysis # after_analyses) fs) rated_file
       = Some (h @ rows_text render rs @ t @ rows_text render ?rest)"
    unfolding create_rated_csv_opened(1)[where open_error=open_error and render=render,
        OF assms(1,2)] W
    by (simp add: rows_text_append rows_text_Cons[where render=render, OF assms(5)])
  have 2: "rated_records open_error strf render
         (before @ a # after) (before_analyses @ analysis # after_analyses)
       = rs @ ?row # ?rest"
    unfolding create_rated_csv_opened(2)[where open_error=open_error and render=render,
        OF assms(1,2)] by (rule W)
  show ?thesis by (rule conjI[OF 1 conjI[OF 2 conjI[OF l]]])
qed

theorem absent_analysis_row_witness:
  "fst (create_rated_csv (\<lambda>p. None) (\<lambda>v. '''') csv_line
          [Some [(''date'', PStr ''2024-01-01''), (''keyword'', PStr ''ransomware''),
             (''headline'', PStr ''X''), (''description'', PStr ''Y''), (''url'', PStr ''http://u'')],
           Some [(''date'', PStr ''2024-01-01''), (''keyword'', PStr ''ransomware''),
             (''headline'', PStr ''Z''), (''description'', PStr ''W''), (''url'', PStr ''http://v'')]]
          [PDict [(''rating'', PStr ''A'')], PNone] Map.empty) rated_file
      = Some (''date,keyword,title,description,url,one-sentence-summary,labels,rating,''
            @ ''rating-explanation,quality-score,quality-score-explanation'' @ crlf
            @ ''2024-01-01,ransomware,X,Y,http://u,,,A,,,'' @ crlf
            @ ''2024-01-01,ransomware,Z,W,http://v,,,,,,'' @ crlf)"
proof -
  let ?a1 = "Some [(''date'', PStr ''2024-01-01''), (''keyword'', PStr ''ransomware''),
             (''headline'', PStr ''X''), (''description'', PStr ''Y''), (''url'', PStr ''http://u'')]"
  let ?b = "Some [(''date'', PStr ''2024-01-01''), (''keyword'', PStr ''ransomware''),
             (''headline'', PStr ''Z''), (''description'', PStr ''W''), (''url'', PStr ''http://v'')]"
  let ?an = "PDict [(''rating'', PStr ''A'')]"
  let ?O = "\<lambda>p::string. None :: exn option"
  let ?S = "\<lambda>v::pyval. ''''"
  let ?h = "''date,keyword,title,description,url,one-sentence-summary,labels,rating,''
            @ ''rating-explanation,quality-score,quality-score-explanation'' @ crlf"
  let ?r1 = "[PStr ''2024-01-01'', PStr ''ransomware'', PStr ''X'', PStr ''Y'', PStr ''http://u'',
       PStr '''', PStr '''', PStr ''A'', PStr '''', PStr '''', PStr '''']"
  let ?t = "''2024-01-01,ransomware,Z,W,http://v,,,,,,'' @ crlf"
  have o: "?O rated_file = None" by simp
  have h: "csv_line rated_header = Inr ?h" by (simp add: rated_header_def ex_defs)
  have v: "is_valid ?b" by (simp add: article_keys_def dict_get_def)
  have n: "\<not> truthy PNone" by simp
  have t: "csv_line (article_fields ?b @ replicate 6 (PStr '''')) = Inr ?t"
    by (simp add: ex_defs numeral_eq_Suc)
  have l: "length [?a1] = length [?an]" by simp
  have w: "write_rows (rated_body ?S csv_line) (zip [?a1] [?an]) = ([?r1], None)"
    by (simp add: rated_ex_defs ex_defs)
  from absent_analysis_row[where open_error="?O" and render=csv_line and strf="?S"
      and before="[?a1]" and before_analyses="[?an]" and after="[]" and after_analyses="[]"
      and fs=Map.empty, OF o h v n t l w]
  have "fst (create_rated_csv ?O ?S csv_line ([?a1] @ ?b # []) ([?an] @ PNone # []) Map.empty)
          rated_file
       = Some (?h @ rows_text csv_line [?r1] @ ?t
                 @ rows_text csv_line (fst (write_rows (rated_body ?S csv_line) (zip [] []))))"
    by (rule conjunct1)
  then show ?thesis by (simp add: ex_defs)
qed

section \<open>The search stage\<close>

lemma item_article_ok:
  "has_item_keys item \<Longrightarrow> item_article today keyword item = Inr (item_dict today keyword item)"
  by (cases item)
    (auto simp: has_item_keys_def item_article_def item_dict_def py_getitem_def getitem_def
          dict_get_def try_bind_def)

lemma item_article_raises:
  "\<not> has_item_keys item \<Longrightarrow> \<exists>e. item_article today keyword item = Inl e \<and> is_Exception e"
  by (cases item)
    (auto simp: has_item_keys_def item_article_def py_getitem_def getitem_def try_bind_def
          split: option.splits)

lemma collect_ok:
  "list_all has_item_keys items \<Longrightarrow>
   collect (item_article today keyword) items = Inr (map (item_dict today keyword) items)"
  by (induction items) (simp_all add: item_article_ok try_bind_def)

lemma collect_raises:
  "\<not> list_all has_item_keys items \<Longrightarrow>
   \<exists>e. collect (item_article today keyword) items = Inl e \<and> is_Exception e"
proof (induction items)
  case Nil
  then show ?case by simp
next
  case (Cons item items)
  show ?case
  proof (cases "has_item_keys item")
    case True
    with Cons obtain e where "collect (item_article today keyword) items = Inl e" "is_Exception e"
      by auto
    with True show ?thesis by (simp add: item_article_ok try_bind_def)
  next
    case False
    from item_article_raises[OF this, of today keyword] obtain e
      where "item_article today keyword item = Inl e" "is_Exception e" by blast
    then show ?thesis by (simp add: try_bind_def)
  qed
qed

text \<open>
  C8, as the claim states it, fails: in a successful response whose second item has no
  \<open>title\<close> key, the subscript raises inside the \<open>try\<close> and \<open>search_news\<close> returns the
  empty list; the first, well-formed item is not returned either.
\<close>

theorem search_news_drops_response:
  "search_news
     (\<lambda>u. Inr (PDict [(''status'', PStr ''success''), (''results'', PList
        [PDict [(''title'', PStr ''X''), (''description'', PStr ''Y''), (''link'', PStr ''http://u'')],
         PDict [(''description'', PStr ''W''), (''link'', PStr ''http://v'')]])]))
     ''2024-01-01'' ''ransomware'' ''key'' ''technology'' ''en'' = Inr []"
  by (simp add: search_news_def py_getitem_def getitem_def try_bind_def
        except_Exception_def item_article_def)

text \<open>
  C8, amended. For a successful response, \<open>search_news\<close> returns one Article per result
  item, in order, when every item is a dict that carries the keys \<open>title\<close>,
  \<open>description\<close> and \<open>link\<close>, whatever their values: an item whose field is null or
  empty is mapped like any other and left to the later filters. When some item lacks one
  of the keys, the whole response yields the empty list.
\<close>

theorem search_news_items:
  assumes "http_get (search_url api_key keyword language category) = Inr (PDict d)"
    and "map_of d ''status'' = Some (PStr ''success'')"
    and "map_of d ''results'' = Some (PList items)"
  shows "search_news http_get today keyword api_key category language =
     Inr (if list_all has_item_keys items then map (item_dict today keyword) items else [])"
proof (cases "list_all has_item_keys items")
  case True
  with assms show ?thesis
    by (simp add: search_news_def py_getitem_def getitem_def try_bind_def
          except_Exception_def collect_ok)
next
  case False
  from collect_raises[OF this, of today keyword] obtain e
    where "collect (item_article today keyword) items = Inl e" "is_Exception e" by blast
  with assms False show ?thesis
    by (simp add: search_news_def py_getitem_def getitem_def try_bind_def
          except_Exception_def)
qed

theorem search_news_items_witness:
  "search_news
     (\<lambda>u. Inr (PDict [(''status'', PStr ''success''), (''results'', PList
        [PDict [(''title'', PStr ''X''), (''description'', PNone), (''link'', PStr ''http://u'')],
         PDict [(''title'', PStr ''Z''), (''description'', PStr ''W''), (''link'', PStr ''http://v'')]])]))
     ''2024-01-01'' ''ransomware'' ''key'' ''technology'' ''en'' =
   Inr [[(''date'', PStr ''2024-01-01''), (''keyword'', PStr ''ransomware''),
         (''headline'', PStr ''X''), (''description'', PNone), (''url'', PStr ''http://u'')],
        [(''date'', PStr ''2024-01-01''), (''keyword'', PStr ''ransomware''),
         (''headline'', PStr ''Z''), (''description'', PStr ''W''), (''url'', PStr ''http://v'')]]"
proof -
  let ?items = "[PDict [(''title'', PStr ''X''), (''description'', PNone), (''link'', PStr ''http://u'')],
         PDict [(''title'', PStr ''Z''), (''description'', PStr ''W''), (''link'', PStr ''http://v'')]]"
  let ?d = "[(''status'', PStr ''success''), (''results'', PList ?items)]"
  let ?get = "\<lambda>u::string. (Inr (PDict ?d) :: exn + pyval)"
  have h: "?get (search_url ''key'' ''ransomware'' ''en'' ''technology'') = Inr (PDict ?d)"
    by simp
  have s: "map_of ?d ''status'' = Some (PStr ''success'')" by simp
  have r: "map_of ?d ''results'' = Some (PList ?items)" by simp
  from search_news_items[of ?get "''key''" "''ransomware''" "''en''" "''technology''" ?d ?items
      "''2024-01-01''", OF h s r]
  show ?thesis by (simp add: has_item_keys_def item_dict_def dict_get_def)
qed

section \<open>The content extractor\<close>

lemma extract_cases:
  "extract_article_content isoformat art url =
     (case init_raises art of
        Some e \<Rightarrow> Inl e
      | None \<Rightarrow>
          (case first_raise art of
             None \<Rightarrow> Inr (Some (content_record isoformat art url), [])
           | Some e \<Rightarrow> if is_Exception e then Inr (None, [FailedToProcess url e]) else Inl e))"
  by (simp add: extract_article_content_def first_raise_def raising_def try_bind_def
        except_Exception_def split: option.splits)

lemma py_or_not_None: "y \<noteq> PNone \<Longrightarrow> py_or x y \<noteq> PNone"
  by (cases x) (simp_all add: py_or_def)

text \<open>
  C4, as the claim states it, fails: when the parse yields no authors, the \<open>authors\<close>
  field is the one-element list holding the sentinel, not the empty sequence.
\<close>

theorem extract_no_authors:
  "extract_article_content (\<lambda>d::string. d)
     \<lparr>init_raises = None, download_raises = None, parse_raises = None, nlp_raises = None,
      np_title = PStr ''T'', np_keywords = PList [], np_authors = PList [],
      np_summary = PStr '''', np_text = PStr ''body'', np_publish_date = None\<rparr>
     (PStr ''http://u'')
   = Inr (Some [(''title'', PStr ''T''), (''keywords'', PList []),
                (''authors'', PList [PStr ''Not Found'']), (''summary'', PStr ''Not Found''),
                (''text'', PStr ''body''), (''publish_date'', PStr ''Not Found''),
                (''url'', PStr ''http://u'')], [])"
  by (simp add: extract_article_content_def raising_def try_bind_def except_Exception_def
        content_record_def py_or_def not_found_def)

text \<open>
  C4, amended. In the record of a successful extraction, \<open>title\<close>, \<open>summary\<close> and
  \<open>text\<close> are the parsed value, or \<open>"Not Found"\<close> when it tests false; \<open>keywords\<close> is
  the parsed value, or the empty list; \<open>authors\<close> is the parsed value, or the list
  \<open>["Not Found"]\<close>; \<open>publish_date\<close> is the \<open>isoformat()\<close> string of the date when there
  is one, or \<open>"Not Found"\<close>; \<open>url\<close> is the argument. The record has exactly these seven
  keys, and none of its values is \<open>None\<close> unless the url passed in is.
\<close>

theorem extracted_content_defaults:
  assumes "extract_article_content isoformat art url = Inr (Some c, logged)"
  shows "map (dict_get c) content_keys =
      [if truthy (np_title art) then np_title art else PStr ''Not Found'',
       if truthy (np_keywords art) then np_keywords art else PList [],
       if truthy (np_authors art) then np_authors art else PList [PStr ''Not Found''],
       if truthy (np_summary art) then np_summary art else PStr ''Not Found'',
       if truthy (np_text art) then np_text art else PStr ''Not Found'',
       case np_publish_date art of Some d \<Rightarrow> PStr (isoformat d) | None \<Rightarrow> PStr ''Not Found'',
       url]
    \<and> map fst c = content_keys
    \<and> (url = PNone \<or> list_all (\<lambda>k. dict_get c k \<noteq> PNone) content_keys)"
proof -
  from assms have c: "c = content_record isoformat art url"
    by (auto simp: extract_cases split: option.splits if_splits)
  have 1: "map (dict_get c) content_keys =
      [if truthy (np_title art) then np_title art else PStr ''Not Found'',
       if truthy (np_keywords art) then np_keywords art else PList [],
       if truthy (np_authors art) then np_authors art else PList [PStr ''Not Found''],
       if truthy (np_summary art) then np_summary art else PStr ''Not Found'',
       if truthy (np_text art) then np_text art else PStr ''Not Found'',
       case np_publish_date art of Some d \<Rightarrow> PStr (isoformat d) | None \<Rightarrow> PStr ''Not Found'',
       url]"
    unfolding c
    by (simp add: content_record_def content_keys_def dict_get_def py_or_def not_found_def
          split: option.splits)
  have 2: "map fst c = content_keys"
    unfolding c by (simp add: content_record_def content_keys_def)
  have 3: "url = PNone \<or> list_all (\<lambda>k. dict_get c k \<noteq> PNone) content_keys"
    unfolding c
    by (simp add: content_record_def content_keys_def dict_get_def py_or_not_None not_found_def
          split: option.splits)
  show ?thesis by (rule conjI[OF 1 conjI[OF 2 3]])
qed

theorem extracted_content_defaults_witness:
  "extract_article_content (\<lambda>d::string. d)
     \<lparr>init_raises = None, download_raises = None, parse_raises = None, nlp_raises = None,
      np_title = PStr '''', np_keywords = PList [PStr ''grc''], np_authors = PList [],
      np_summary = PNone, np_text = PStr ''body'',
      np_publish_date = Some ''2024-01-01T00:00:00''\<rparr>
     (PStr ''http://u'')
   = Inr (Some [(''title'', PStr ''Not Found''), (''keywords'', PList [PStr ''grc'']),
                (''authors'', PList [PStr ''Not Found'']), (''summary'', PStr ''Not Found''),
                (''text'', PStr ''body''), (''publish_date'', PStr ''2024-01-01T00:00:00''),
                (''url'', PStr ''http://u'')], [])
   \<and> map (dict_get [(''title'', PStr ''Not Found''), (''keywords'', PList [PStr ''grc'']),
                (''authors'', PList [PStr ''Not Found'']), (''summary'', PStr ''Not Found''),
                (''text'', PStr ''body''), (''publish_date'', PStr ''2024-01-01T00:00:00''),
                (''url'', PStr ''http://u'')]) content_keys
     = [PStr ''Not Found'', PList [PStr ''grc''], PList [PStr ''Not Found''], PStr ''Not Found'',
        PStr ''body'', PStr ''2024-01-01T00:00:00'', PStr ''http://u'']"
proof -
  let ?art = "\<lparr>init_raises = None, download_raises = None, parse_raises = None, nlp_raises = None,
      np_title = PStr '''', np_keywords = PList [PStr ''grc''], np_authors = PList [],
      np_summary = PNone, np_text = PStr ''body'',
      np_publish_date = Some ''2024-01-01T00:00:00''\<rparr>"
  let ?c = "[(''title'', PStr ''Not Found''), (''keywords'', PList [PStr ''grc'']),
                (''authors'', PList [PStr ''Not Found'']), (''summary'', PStr ''Not Found''),
                (''text'', PStr ''body''), (''publish_date'', PStr ''2024-01-01T00:00:00''),
                (''url'', PStr ''http://u'')]"
  have h: "extract_article_content (\<lambda>d::string. d) ?art (PStr ''http://u'') = Inr (Some ?c, [])"
    by (simp add: extract_article_content_def raising_def try_bind_def except_Exception_def
          content_record_def py_or_def not_found_def)
  from extracted_content_defaults[OF h]
  have "map (dict_get ?c) content_keys
     = [PStr ''Not Found'', PList [PStr ''grc''], PList [PStr ''Not Found''], PStr ''Not Found'',
        PStr ''body'', PStr ''2024-01-01T00:00:00'', PStr ''http://u'']"
    by simp
  with h show ?thesis by (rule conjI)
qed

text \<open>
  C6. \<open>extract_article_content\<close> raises past its boundary: the Article object is
  constructed before the \<open>try\<close>, so the exception its constructor raises on a
  malformed URL is not caught, where every failure inside the \<open>try\<close> is turned into
  \<open>None\<close>.
\<close>

theorem extract_constructor_raises:
  "extract_article_content (\<lambda>d::string. d)
     \<lparr>init_raises = Some ValueError, download_raises = None, parse_raises = None,
      nlp_raises = None, np_title = PNone, np_keywords = PNone, np_authors = PNone,
      np_summary = PNone, np_text = PNone, np_publish_date = None\<rparr>
     (PStr ''http://['')
   = Inl ValueError"
  by (simp add: extract_article_content_def raising_def try_bind_def)

text \<open>
  Inside the \<open>try\<close> the handler does its work: once the Article object is
  constructed, an \<open>Exception\<close> raised by download, parse or nlp gives \<open>None\<close> and a log
  entry with the URL and the exception; otherwise the record is returned and nothing is
  logged.
\<close>

lemma extract_catches_in_try:
  assumes "init_raises art = None"
    and "\<forall>e. first_raise art = Some e \<longrightarrow> is_Exception e"
  shows "extract_article_content isoformat art url =
     (case first_raise art of
        None \<Rightarrow> Inr (Some (content_record isoformat art url), [])
      | Some e' \<Rightarrow> Inr (None, [FailedToProcess url e']))"
  using assms by (simp add: extract_cases split: option.splits)

lemma extract_catches_in_try_example:
  "extract_article_content (\<lambda>d::string. d)
     \<lparr>init_raises = None, download_raises = Some RequestException, parse_raises = None,
      nlp_raises = None, np_title = PNone, np_keywords = PNone, np_authors = PNone,
      np_summary = PNone, np_text = PNone, np_publish_date = None\<rparr>
     (PStr ''http://u'')
   = Inr (None, [FailedToProcess (PStr ''http://u'') RequestException])"
proof -
  let ?art = "\<lparr>init_raises = None, download_raises = Some RequestException, parse_raises = None,
      nlp_raises = None, np_title = PNone, np_keywords = PNone, np_authors = PNone,
      np_summary = PNone, np_text = PNone, np_publish_date = (None :: string option)\<rparr>"
  have i: "init_raises ?art = None" by simp
  have f: "\<forall>e. first_raise ?art = Some e \<longrightarrow> is_Exception e"
    by (simp add: first_raise_def)
  from extract_catches_in_try[OF i f, of "\<lambda>d. d" "PStr ''http://u''"]
  show ?thesis by (simp add: first_raise_def)
qed

section \<open>The analysis client\<close>

text \<open>
  When every step succeeds and the two names are fresh, both transient files are gone
  afterwards.
\<close>

lemma fabric_success_cleans:
  assumes "format_content strf content = Inr text"
    and "run_copy w (copy_command (system w)) text = None"
    and "get_clipboard_command (system w) (xclip_probe w) = Inr cc"
    and "run_shell w (fabric_cmd cc (output_path w)) = None"
    and "read_json w (output_path w) = Inr fabric_data"
    and "temp_file_path w \<noteq> output_path w"
    and "temp_file_path w \<notin> tmp" and "output_path w \<notin> tmp"
  shows "analyze_with_fabric strf w content tmp = (Inr fabric_data, tmp)"
  using assms by (auto simp: analyze_with_fabric_def Let_def unlink_def)

text \<open>
  When the fabric pipeline fails, both transient files are still there afterwards.
\<close>

lemma fabric_failure_leaves_files:
  assumes "run_shell w cmd = Some e" and "\<forall>c. run_shell w c = run_shell w cmd"
    and "format_content strf content = Inr text"
    and "run_copy w (copy_command (system w)) text = None"
    and "get_clipboard_command (system w) (xclip_probe w) = Inr cc"
  shows "{temp_file_path w, output_path w} \<subseteq> snd (analyze_with_fabric strf w content tmp)"
proof -
  from assms(1,2) have "run_shell w (fabric_cmd cc (output_path w)) = Some e" by metis
  with assms(3-5) show ?thesis
    by (simp add: analyze_with_fabric_def Let_def fabric_handler_def)
qed

text \<open>
  C5. The code does not delete its transient files on every exit path: the two
  \<open>os.unlink\<close> calls come after the output has been decoded, and the handler returns
  without them. Here the fabric pipeline times out on macOS: \<open>analyze_with_fabric\<close>
  returns \<open>None\<close> and both files remain.
\<close>

theorem fabric_timeout_leaves_files:
  "analyze_with_fabric (\<lambda>v. '''')
     \<lparr>system = Darwin, temp_file_path = ''/tmp/in.txt'', output_path = ''/tmp/out.md'',
      run_copy = (\<lambda>cmd inp. None), xclip_probe = None,
      run_shell = (\<lambda>cmd. Some TimeoutExpired), read_json = (\<lambda>p. Inl JSONDecodeError)\<rparr>
     [(''title'', PStr ''T''), (''keywords'', PList []), (''authors'', PList [PStr ''Not Found'']),
      (''summary'', PStr ''S''), (''text'', PStr ''body''), (''publish_date'', PStr ''Not Found''),
      (''url'', PStr ''http://u'')]
     {}
   = (Inr PNone, {''/tmp/out.md'', ''/tmp/in.txt''})"
  by (simp add: analyze_with_fabric_def format_content_def getitem_def py_join_def try_bind_def
        get_clipboard_command_def copy_command_def fabric_handler_def Let_def)

section \<open>The pairing of articles and analysis results\<close>

lemma fabric_handler_fst: "fst (fabric_handler e tmp) = fst (fabric_handler e {})"
  by (simp add: fabric_handler_def)










end
